theory Spec2Isabelle
  imports Main
begin

section \<open>Values shared by the modules\<close>

text \<open>
  A JavaScript exception. The routes only distinguish "something was thrown", so two
  constructors are enough: the \<open>TypeError\<close> the platform raises (a call of an absent
  member, an invalid header value) and any other error with its message.
\<close>

datatype exn = TypeError | Error string

text \<open>An entry of a \<open>FormData\<close>: a string or a file (of which only the name is kept).\<close>

datatype form_entry = FString string | FFile string

text \<open>
  The part of a \<open>Request\<close> the source reads: \<open>request.headers.get("Cookie")\<close>, a string
  or \<open>null\<close>, and \<open>await request.formData()\<close>, which yields the entries in order or
  rejects.
\<close>

record request =
  req_cookie :: "string option"
  req_formData :: "exn + (string \<times> form_entry) list"

type_synonym header = "string \<times> string"

section \<open>app/server.ts\<close>

subsection \<open>What the module imports\<close>

text \<open>
  \<open>parseCookieHeader\<close>, \<open>serializeCookieHeader\<close> and \<open>createServerClient\<close> come from the
  package \<open>@supabase/ssr\<close>, and \<open>Headers\<close> from the platform; none of them is code of
  this repository. They are parameters of the model, each with the possibility of throwing:
  \<^item> \<open>parseCookieHeader s\<close> throws or returns the parsed cookies, \<open>None\<close> standing for a
    nullish result (\<open>null\<close> or \<open>undefined\<close>);
  \<^item> \<open>serializeCookieHeader name value options\<close> throws or returns the header string;
  \<^item> \<open>createServerClient_check url key\<close> is the exception, if any, that the constructor
    \<open>createServerClient\<close> throws for these two configuration values;
  \<^item> \<open>Headers_value v\<close> is what \<open>Headers.append\<close> makes of a value before it stores it:
    the normalised value, or the exception for a value it refuses.
\<close>

record ('ck, 'opt) externals =
  parseCookieHeader :: "string \<Rightarrow> exn + 'ck list option"
  serializeCookieHeader :: "string \<Rightarrow> string \<Rightarrow> 'opt \<Rightarrow> exn + string"
  createServerClient_check :: "string option \<Rightarrow> string option \<Rightarrow> exn option"
  Headers_value :: "string \<Rightarrow> exn + string"

subsection \<open>Headers objects and the store\<close>

text \<open>
  \<open>new Headers()\<close> creates a mutable object that the closure \<open>setAll\<close> and the caller
  of \<open>getServerClient\<close> both hold. The store maps the address of each \<open>Headers\<close> object
  to its header list; \<open>next_addr\<close> is the first address not yet in use.
\<close>

record store =
  objs :: "nat \<Rightarrow> header list"
  next_addr :: nat

definition new_Headers :: "store \<Rightarrow> nat \<times> store" where
  "new_Headers st =
     (next_addr st,
      st\<lparr>objs := (objs st)(next_addr st := []), next_addr := Suc (next_addr st)\<rparr>)"

text \<open>\<open>headers.append(name, value)\<close>: the processed value goes to the end of the list.\<close>

definition Headers_append ::
  "('ck, 'opt) externals \<Rightarrow> header list \<Rightarrow> string \<Rightarrow> string \<Rightarrow> exn + header list" where
  "Headers_append X hs n v =
     (case Headers_value X v of
        Inl e \<Rightarrow> Inl e
      | Inr v' \<Rightarrow> Inr (hs @ [(n, v')]))"

subsection \<open>The cookie callbacks\<close>

text \<open>One element of the array \<open>cookiesToSet\<close> given to \<open>setAll\<close>.\<close>

record 'opt cookie_to_set =
  c_name :: string
  c_value :: string
  c_options :: 'opt

text \<open>
  The object \<open>{ getAll() {...}, setAll(cookiesToSet) {...} }\<close> of lines 10 to 22, as the
  variables its two closures capture: \<open>request\<close> and \<open>headers\<close> (an address).
\<close>

record cookie_methods =
  cm_request :: request
  cm_headers :: nat

text \<open>
  Lines 11 to 13:
  \<^verbatim>\<open>return parseCookieHeader(request.headers.get("Cookie") ?? "") ?? {};\<close>
  The nullish result becomes the empty collection (the source's \<open>{}\<close>).
\<close>

definition getAll :: "('ck, 'opt) externals \<Rightarrow> cookie_methods \<Rightarrow> exn + 'ck list" where
  "getAll X cm =
     (case parseCookieHeader X (case req_cookie (cm_request cm) of None \<Rightarrow> [] | Some s \<Rightarrow> s) of
        Inl e \<Rightarrow> Inl e
      | Inr p \<Rightarrow> Inr (case p of None \<Rightarrow> [] | Some cs \<Rightarrow> cs))"

text \<open>
  Lines 15 to 20, the \<open>forEach\<close> over \<open>cookiesToSet\<close> on the header list of the captured
  \<open>Headers\<close> object. An exception ends the loop; what was appended before it stays.
\<close>

fun setAll_forEach ::
  "('ck, 'opt) externals \<Rightarrow> 'opt cookie_to_set list \<Rightarrow> header list \<Rightarrow> exn option \<times> header list" where
  "setAll_forEach X [] hs = (None, hs)"
| "setAll_forEach X (c # cs) hs =
     (case serializeCookieHeader X (c_name c) (c_value c) (c_options c) of
        Inl e \<Rightarrow> (Some e, hs)
      | Inr s \<Rightarrow>
          (case Headers_append X hs ''Set-Cookie'' s of
             Inl e \<Rightarrow> (Some e, hs)
           | Inr hs' \<Rightarrow> setAll_forEach X cs hs'))"

text \<open>Lines 14 to 21: \<open>setAll\<close> returns the exception it threw, if any, and the new store.\<close>

definition setAll ::
  "('ck, 'opt) externals \<Rightarrow> cookie_methods \<Rightarrow> 'opt cookie_to_set list \<Rightarrow> store \<Rightarrow> exn option \<times> store" where
  "setAll X cm cookiesToSet st =
     (case setAll_forEach X cookiesToSet (objs st (cm_headers cm)) of
        (r, hs) \<Rightarrow> (r, st\<lparr>objs := (objs st)(cm_headers cm := hs)\<rparr>))"

subsection \<open>getServerClient\<close>

text \<open>
  The client that \<open>createServerClient\<close> builds is an object of the library; the model keeps
  of it what the source gives it: the two configuration values and the callbacks. The
  constructor stores the callbacks; the library invokes them later, while the request is
  handled (see \<open>invoke_all\<close> below).
\<close>

record client =
  supabaseUrl :: "string option"
  supabaseKey :: "string option"
  cookies :: cookie_methods

definition createServerClient ::
  "('ck, 'opt) externals \<Rightarrow> string option \<Rightarrow> string option \<Rightarrow> cookie_methods \<Rightarrow> exn + client" where
  "createServerClient X url key cm =
     (case createServerClient_check X url key of
        Some e \<Rightarrow> Inl e
      | None \<Rightarrow> Inr \<lparr>supabaseUrl = url, supabaseKey = key, cookies = cm\<rparr>)"

text \<open>The value \<open>{ client: supabase, headers: headers }\<close> of line 26.\<close>

record bridge =
  client :: client
  headers :: nat

text \<open>
  Lines 4 to 27. \<open>env\<close> is \<open>process.env\<close>, read when the function runs (lines 7 and 8);
  the non-null assertions \<open>!\<close> of the source have no effect at run time.
\<close>

definition getServerClient ::
  "('ck, 'opt) externals \<Rightarrow> (string \<Rightarrow> string option) \<Rightarrow> request \<Rightarrow> store \<Rightarrow> (exn + bridge) \<times> store" where
  "getServerClient X env request st =
     (case new_Headers st of
        (hdrs, st1) \<Rightarrow>
          (case createServerClient X (env ''SUPABASE_URL'') (env ''SUPABASE_ANON_KEY'')
                  \<lparr>cm_request = request, cm_headers = hdrs\<rparr> of
             Inl e \<Rightarrow> (Inl e, st1)
           | Inr supabase \<Rightarrow> (Inr \<lparr>client = supabase, headers = hdrs\<rparr>, st1)))"

text \<open>
  Evaluating the module itself (lines 1 to 4) binds \<open>getServerClient\<close> and nothing else:
  no statement outside the function body reads \<open>process.env\<close>, so loading the module
  succeeds whatever the environment holds. The result is the exception thrown, if any.
\<close>

definition server_module_init :: "(string \<Rightarrow> string option) \<Rightarrow> exn option" where
  "server_module_init env = None"

subsection \<open>Sequences of callback invocations\<close>

text \<open>
  During the handling of requests the library invokes write callbacks, each with its batch.
  An invocation that throws hands its exception to the library; the headers it appended
  stay in the store, and later invocations still run.
\<close>

fun invoke_all ::
  "('ck, 'opt) externals \<Rightarrow> (cookie_methods \<times> 'opt cookie_to_set list) list \<Rightarrow> store \<Rightarrow> store" where
  "invoke_all X [] st = st"
| "invoke_all X ((cm, batch) # rest) st = invoke_all X rest (snd (setAll X cm batch st))"

text \<open>
  The header one instruction produces when nothing throws: the serialised cookie, processed
  by \<open>Headers.append\<close>, under the name \<open>Set-Cookie\<close>.
\<close>

definition set_cookie_header :: "('ck, 'opt) externals \<Rightarrow> 'opt cookie_to_set \<Rightarrow> header option" where
  "set_cookie_header X c =
     (case serializeCookieHeader X (c_name c) (c_value c) (c_options c) of
        Inl e \<Rightarrow> None
      | Inr s \<Rightarrow> (case Headers_value X s of Inl e \<Rightarrow> None | Inr v \<Rightarrow> Some (''Set-Cookie'', v)))"

section \<open>The routes\<close>

subsection \<open>The service client as the routes use it\<close>

text \<open>
  The error object of the remote service (\<open>PostgrestError\<close>, \<open>AuthError\<close>); the routes
  read its \<open>message\<close> only.
\<close>

record service_error =
  message :: string

text \<open>The value \<open>{ data, error }\<close> a query resolves to: \<open>data\<close> is an array of rows or \<open>null\<close>.\<close>

record 'row db_response =
  res_data :: "'row list option"
  res_error :: "service_error option"

text \<open>The value \<open>auth.getUser()\<close> resolves to, with \<open>data.user\<close> and \<open>error\<close>.\<close>

record 'user user_response =
  ur_user :: "'user option"
  ur_error :: "service_error option"

text \<open>
  One awaited query-builder chain \<open>from(table).insert(..)/update(..)/delete()\<close> with its
  optional \<open>.eq(column, value)\<close> and \<open>.select(columns)\<close>. The values come from
  \<open>formData.get\<close>, so each is an entry or \<open>null\<close>.
\<close>

datatype query =
    Insert "(string \<times> form_entry option) list"
  | Update "(string \<times> form_entry option) list"
  | Delete

record db_call =
  call_table :: string
  call_query :: query
  call_eq :: "(string \<times> form_entry option) option"
  call_select :: "string option"

text \<open>
  The routes import \<open>getServerClient\<close> from \<open>~/server\<close> and use its result as the service
  client itself (\<open>sbServerClient.from(..)\<close>, \<open>sbServerClient.auth.getUser()\<close>). The
  remote service is outside the repository, so the handle is a parameter: \<open>sh_from\<close> is
  what an awaited query yields (a response, or a rejection), \<open>sh_auth_getUser\<close> what
  \<open>auth.getUser()\<close> yields. A member may be absent (\<open>None\<close>); using it then raises a
  \<open>TypeError\<close>, as JavaScript does.
\<close>

record ('row, 'user) service_handle =
  sh_from :: "(db_call \<Rightarrow> exn + 'row db_response) option"
  sh_auth_getUser :: "(exn + 'user user_response) option"

text \<open>
  The object \<open>{ client, headers }\<close> that \<open>getServerClient\<close> of app/server.ts returns has
  neither a member \<open>from\<close> nor a member \<open>auth\<close>.
\<close>

definition bridge_as_handle :: "bridge \<Rightarrow> ('row, 'user) service_handle" where
  "bridge_as_handle b = \<lparr>sh_from = None, sh_auth_getUser = None\<rparr>"

text \<open>
  \<open>await sbServerClient.from(..)...\<close>: the outcome, and the calls that reached the remote
  service.
\<close>

definition await_query ::
  "('row, 'user) service_handle \<Rightarrow> db_call \<Rightarrow> (exn + 'row db_response) \<times> db_call list" where
  "await_query sb call =
     (case sh_from sb of
        None \<Rightarrow> (Inl TypeError, [])
      | Some run \<Rightarrow> (run call, [call]))"

text \<open>\<open>formData.get(name)\<close>: the first entry of that name, or \<open>null\<close>.\<close>

definition FormData_get :: "(string \<times> form_entry) list \<Rightarrow> string \<Rightarrow> form_entry option" where
  "FormData_get formData k = map_of formData k"

text \<open>A property of a returned object: absent, \<open>null\<close>, or a value.\<close>

datatype 'a field = Absent | Null | Val 'a

record ('d, 'e) action_result =
  ar_data :: "'d field"
  ar_error :: "'e field"

subsection \<open>app/routes/crud.tsx: action\<close>

text \<open>\<open>data?.length > 0 ? data[0] : null\<close>\<close>

definition first_or_null :: "'row list option \<Rightarrow> 'row field" where
  "first_or_null d = (case d of Some (r # rs) \<Rightarrow> Val r | _ \<Rightarrow> Null)"

text \<open>
  The body of the \<open>try\<close> block, lines 32 to 93: the value returned or the exception
  thrown, and the calls made to the remote service.
\<close>

definition crud_action_try ::
  "(request \<Rightarrow> exn + ('row, 'user) service_handle) \<Rightarrow> request \<Rightarrow>
     (exn + ('row, string) action_result) \<times> db_call list" where
  "crud_action_try gsc request =
     (case gsc request of
        Inl e \<Rightarrow> (Inl e, [])
      | Inr sbServerClient \<Rightarrow>
     (case req_formData request of
        Inl e \<Rightarrow> (Inl e, [])
      | Inr formData \<Rightarrow>
          let actionType = FormData_get formData ''actionType'' in
          if actionType = Some (FString ''addItem'') then
            (let name = FormData_get formData ''name'';
                 description = FormData_get formData ''description''
             in case await_query sbServerClient
                  \<lparr>call_table = ''items'',
                   call_query = Insert [(''name'', name), (''description'', description)],
                   call_eq = None, call_select = Some ''*''\<rparr> of
               (Inl e, calls) \<Rightarrow> (Inl e, calls)
             | (Inr res, calls) \<Rightarrow>
                 (case res_error res of
                    Some err \<Rightarrow> (Inr \<lparr>ar_data = Absent, ar_error = Val (message err)\<rparr>, calls)
                  | None \<Rightarrow> (Inr \<lparr>ar_data = first_or_null (res_data res), ar_error = Absent\<rparr>, calls)))
          else if actionType = Some (FString ''editItem'') then
            (let id = FormData_get formData ''id'';
                 name = FormData_get formData ''name'';
                 description = FormData_get formData ''description''
             in case await_query sbServerClient
                  \<lparr>call_table = ''items'',
                   call_query = Update [(''name'', name), (''description'', description)],
                   call_eq = Some (''id'', id), call_select = Some ''*''\<rparr> of
               (Inl e, calls) \<Rightarrow> (Inl e, calls)
             | (Inr res, calls) \<Rightarrow>
                 (case res_error res of
                    Some err \<Rightarrow> (Inr \<lparr>ar_data = Absent, ar_error = Val (message err)\<rparr>, calls)
                  | None \<Rightarrow> (Inr \<lparr>ar_data = first_or_null (res_data res), ar_error = Absent\<rparr>, calls)))
          else if actionType = Some (FString ''deleteItem'') then
            (let id = FormData_get formData ''id''
             in case await_query sbServerClient
                  \<lparr>call_table = ''items'', call_query = Delete,
                   call_eq = Some (''id'', id), call_select = None\<rparr> of
               (Inl e, calls) \<Rightarrow> (Inl e, calls)
             | (Inr res, calls) \<Rightarrow>
                 (case res_error res of
                    Some err \<Rightarrow> (Inr \<lparr>ar_data = Absent, ar_error = Val (message err)\<rparr>, calls)
                  | None \<Rightarrow> (Inr \<lparr>ar_data = Null, ar_error = Absent\<rparr>, calls)))
          else (Inr \<lparr>ar_data = Null, ar_error = Val ''Invalid action type''\<rparr>, [])))"

text \<open>
  Lines 30 to 98: the \<open>try\<close> block with its \<open>catch\<close> (lines 94 to 97). The outcome keeps
  the possibility of an exception, so that its absence is a theorem and not a typing.
\<close>

definition crud_action ::
  "(request \<Rightarrow> exn + ('row, 'user) service_handle) \<Rightarrow> request \<Rightarrow>
     (exn + ('row, string) action_result) \<times> db_call list" where
  "crud_action gsc request =
     (case crud_action_try gsc request of
        (Inl e, calls) \<Rightarrow> (Inr \<lparr>ar_data = Null, ar_error = Val ''An error occurred''\<rparr>, calls)
      | (Inr r, calls) \<Rightarrow> (Inr r, calls))"

subsection \<open>The second crud module (unnamed part 000): action\<close>

text \<open>
  This version returns \<open>{ data, error }\<close> as the service gave them: \<open>data\<close> is the array
  of rows or \<open>null\<close>, \<open>error\<close> the error object or \<open>null\<close>; in the last branch and in the
  \<open>catch\<close>, \<open>error\<close> is a string.
\<close>

datatype err_value = ErrObject service_error | ErrString string

definition response_result :: "'row db_response \<Rightarrow> ('row list, err_value) action_result" where
  "response_result res =
     \<lparr>ar_data = (case res_data res of None \<Rightarrow> Null | Some rows \<Rightarrow> Val rows),
      ar_error = (case res_error res of None \<Rightarrow> Null | Some err \<Rightarrow> Val (ErrObject err))\<rparr>"

text \<open>The body of the \<open>try\<close> block, lines 32 to 69.\<close>

definition crud_action_part000_try ::
  "(request \<Rightarrow> exn + ('row, 'user) service_handle) \<Rightarrow> request \<Rightarrow>
     (exn + ('row list, err_value) action_result) \<times> db_call list" where
  "crud_action_part000_try gsc request =
     (case gsc request of
        Inl e \<Rightarrow> (Inl e, [])
      | Inr sbServerClient \<Rightarrow>
     (case req_formData request of
        Inl e \<Rightarrow> (Inl e, [])
      | Inr formData \<Rightarrow>
          let actionType = FormData_get formData ''actionType'' in
          if actionType = Some (FString ''addItem'') then
            (let name = FormData_get formData ''name'';
                 description = FormData_get formData ''description''
             in case await_query sbServerClient
                  \<lparr>call_table = ''items'',
                   call_query = Insert [(''name'', name), (''description'', description)],
                   call_eq = None, call_select = None\<rparr> of
               (Inl e, calls) \<Rightarrow> (Inl e, calls)
             | (Inr res, calls) \<Rightarrow> (Inr (response_result res), calls))
          else if actionType = Some (FString ''editItem'') then
            (let id = FormData_get formData ''id'';
                 name = FormData_get formData ''name'';
                 description = FormData_get formData ''description''
             in case await_query sbServerClient
                  \<lparr>call_table = ''items'',
                   call_query = Update [(''name'', name), (''description'', description)],
                   call_eq = Some (''id'', id), call_select = None\<rparr> of
               (Inl e, calls) \<Rightarrow> (Inl e, calls)
             | (Inr res, calls) \<Rightarrow> (Inr (response_result res), calls))
          else if actionType = Some (FString ''deleteItem'') then
            (let id = FormData_get formData ''id''
             in case await_query sbServerClient
                  \<lparr>call_table = ''items'', call_query = Delete,
                   call_eq = Some (''id'', id), call_select = None\<rparr> of
               (Inl e, calls) \<Rightarrow> (Inl e, calls)
             | (Inr res, calls) \<Rightarrow> (Inr (response_result res), calls))
          else (Inr \<lparr>ar_data = Null, ar_error = Val (ErrString ''Invalid action type'')\<rparr>, [])))"

text \<open>Lines 30 to 73: the \<open>try\<close> block with its \<open>catch\<close> (lines 70 to 72).\<close>

definition crud_action_part000 ::
  "(request \<Rightarrow> exn + ('row, 'user) service_handle) \<Rightarrow> request \<Rightarrow>
     (exn + ('row list, err_value) action_result) \<times> db_call list" where
  "crud_action_part000 gsc request =
     (case crud_action_part000_try gsc request of
        (Inl e, calls) \<Rightarrow>
          (Inr \<lparr>ar_data = Null, ar_error = Val (ErrString ''An error occurred'')\<rparr>, calls)
      | (Inr r, calls) \<Rightarrow> (Inr r, calls))"

subsection \<open>app/routes/home.tsx: loader\<close>

text \<open>What a loader throws: an exception, or the response made by \<open>redirect(path)\<close>.\<close>

datatype thrown = Exception exn | Redirect string

text \<open>The value \<open>{ user: ... }\<close> of line 56; \<open>None\<close> is \<open>null\<close>.\<close>

record 'user home_data =
  user :: "'user option"

text \<open>
  Lines 49 to 57. An error object and a user object are truthy and \<open>null\<close> is falsy, so
  \<open>userResponse.error || !userResponse.data.user\<close> is "an error is there or no user is".
\<close>

definition home_loader ::
  "(request \<Rightarrow> exn + ('row, 'user) service_handle) \<Rightarrow> request \<Rightarrow> thrown + 'user home_data" where
  "home_loader gsc request =
     (case gsc request of
        Inl e \<Rightarrow> Inl (Exception e)
      | Inr sbServerClient \<Rightarrow>
          (case sh_auth_getUser sbServerClient of
             None \<Rightarrow> Inl (Exception TypeError)
           | Some (Inl e) \<Rightarrow> Inl (Exception e)
           | Some (Inr userResponse) \<Rightarrow>
               if ur_error userResponse \<noteq> None \<or> ur_user userResponse = None
               then Inl (Redirect ''/login'')
               else Inr \<lparr>user = (case ur_user userResponse of Some u \<Rightarrow> Some u | None \<Rightarrow> None)\<rparr>))"

section \<open>Concrete inputs\<close>

text \<open>
  A stand-in for the library and the platform, on which the theorems are evaluated:
  a parser that splits at \<open>;\<close> and at the first \<open>=\<close>, a serialiser that refuses an empty
  name, a constructor that refuses a missing configuration value and a header value check
  that refuses a line feed.
\<close>

fun split_on :: "char \<Rightarrow> string \<Rightarrow> string list" where
  "split_on c [] = [[]]"
| "split_on c (x # xs) =
     (if x = c then [] # split_on c xs
      else (case split_on c xs of [] \<Rightarrow> [[x]] | w # ws \<Rightarrow> (x # w) # ws))"

definition sample_parse :: "string \<Rightarrow> exn + (string \<times> string) list option" where
  "sample_parse s =
     Inr (Some (map (\<lambda>w. (takeWhile (\<lambda>ch. ch \<noteq> CHR ''='') w,
                          drop 1 (dropWhile (\<lambda>ch. ch \<noteq> CHR ''='') w)))
                  (filter (\<lambda>w. w \<noteq> []) (split_on CHR '';'' s))))"

definition sample_externals :: "(string \<times> string, string) externals" where
  "sample_externals =
     \<lparr>parseCookieHeader = sample_parse,
      serializeCookieHeader =
        (\<lambda>n v opts. if n = [] then Inl TypeError else Inr (n @ ''='' @ v @ opts)),
      createServerClient_check =
        (\<lambda>url key. if url = None \<or> key = None
                    then Some (Error ''URL and Key are required'') else None),
      Headers_value = (\<lambda>v. if CHR 0x0A \<in> set v then Inl TypeError else Inr v)\<rparr>"

definition sample_env :: "string \<Rightarrow> string option" where
  "sample_env =
     map_of [(''SUPABASE_URL'', ''https://example.supabase.co''), (''SUPABASE_ANON_KEY'', ''anon'')]"

definition empty_env :: "string \<Rightarrow> string option" where
  "empty_env = (\<lambda>k. None)"

definition empty_store :: store where
  "empty_store = \<lparr>objs = (\<lambda>a. []), next_addr = 0\<rparr>"

definition cookie_request :: "string option \<Rightarrow> request" where
  "cookie_request c = \<lparr>req_cookie = c, req_formData = Inr []\<rparr>"

definition form_request :: "(string \<times> form_entry) list \<Rightarrow> request" where
  "form_request entries = \<lparr>req_cookie = None, req_formData = Inr entries\<rparr>"

definition sid :: "string \<Rightarrow> string cookie_to_set" where
  "sid v = \<lparr>c_name = ''sid'', c_value = v, c_options = ''; Path=/''\<rparr>"

text \<open>
  A service whose queries answer with one row and whose \<open>getUser\<close> answers as given, and
  the provider that hands it to every request.
\<close>

definition sample_handle :: "(exn + string user_response) \<Rightarrow> (string, string) service_handle" where
  "sample_handle u =
     \<lparr>sh_from = Some (\<lambda>call. Inr \<lparr>res_data = Some [''row''], res_error = None\<rparr>),
      sh_auth_getUser = Some u\<rparr>"

definition sample_gsc ::
  "(exn + string user_response) \<Rightarrow> request \<Rightarrow> exn + (string, string) service_handle" where
  "sample_gsc u request = Inr (sample_handle u)"

text \<open>
  With the sample environment, \<open>getServerClient\<close> on a store whose next address is \<open>a\<close>
  returns this value, and leaves the store \<open>sample_created request st\<close>.
\<close>

definition sample_bridge :: "request \<Rightarrow> nat \<Rightarrow> bridge" where
  "sample_bridge request a =
     \<lparr>client = \<lparr>supabaseUrl = Some ''https://example.supabase.co'', supabaseKey = Some ''anon'',
                 cookies = \<lparr>cm_request = request, cm_headers = a\<rparr>\<rparr>,
      headers = a\<rparr>"

definition sample_created :: "request \<Rightarrow> store \<Rightarrow> store" where
  "sample_created request st = snd (getServerClient sample_externals sample_env request st)"

text \<open>A stand-in whose parser reports a header without any \<open>=\<close> as a nullish result.\<close>

definition nullish_externals :: "(string \<times> string, string) externals" where
  "nullish_externals =
     sample_externals\<lparr>parseCookieHeader :=
       (\<lambda>s. if CHR ''='' \<in> set s then sample_parse s else Inr None)\<rparr>"

text \<open>A service that is unreachable: every query and \<open>getUser\<close> reject.\<close>

definition rejecting_handle :: "(string, string) service_handle" where
  "rejecting_handle =
     \<lparr>sh_from = Some (\<lambda>call. Inl (Error ''fetch failed'')), sh_auth_getUser = Some (Inl (Error ''fetch failed''))\<rparr>"

text \<open>
  The provider the routes get when \<open>~/server\<close> is the module app/server.ts above: its
  result, used as the client itself.
\<close>

definition server_ts_gsc :: "request \<Rightarrow> exn + (string, string) service_handle" where
  "server_ts_gsc request =
     (case fst (getServerClient sample_externals sample_env request empty_store) of
        Inl e \<Rightarrow> Inl e
      | Inr b \<Rightarrow> Inr (bridge_as_handle b))"

text \<open>Two answers of \<open>auth.getUser()\<close>: no session, and the user \<open>ann\<close>.\<close>

definition no_user :: "exn + string user_response" where
  "no_user = Inr \<lparr>ur_user = None, ur_error = Some \<lparr>message = ''Auth session missing!''\<rparr>\<rparr>"

definition user_ann :: "exn + string user_response" where
  "user_ann = Inr \<lparr>ur_user = Some ''ann'', ur_error = None\<rparr>"

text \<open>
  The provider of app/server.ts when the environment holds neither configuration value:
  the stand-in constructor refuses them, so \<open>getServerClient\<close> throws.
\<close>

definition absent_config_gsc :: "request \<Rightarrow> exn + (string, string) service_handle" where
  "absent_config_gsc request =
     (case fst (getServerClient sample_externals empty_env request empty_store) of
        Inl e \<Rightarrow> Inl e
      | Inr b \<Rightarrow> Inr (bridge_as_handle b))"


section \<open>Properties of the cookie callbacks\<close>

subsection \<open>The loop of setAll\<close>

text \<open>
  What \<open>setAll\<close> appends does not depend on what the object already holds: the loop on
  a list \<open>hs\<close> yields \<open>hs\<close> followed by what it yields on the empty list.
\<close>

lemma setAll_forEach_append:
  "setAll_forEach X cs hs = (fst (setAll_forEach X cs []), hs @ snd (setAll_forEach X cs []))"
proof (induction cs arbitrary: hs)
  case Nil
  show ?case by simp
next
  case (Cons c cs)
  show ?case
  proof (cases "serializeCookieHeader X (c_name c) (c_value c) (c_options c)")
    case (Inl e)
    then show ?thesis by simp
  next
    case (Inr s)
    show ?thesis
    proof (cases "Headers_value X s")
      case (Inl e)
      with Inr show ?thesis by (simp add: Headers_append_def)
    next
      case v: (Inr v)
      have a: "setAll_forEach X cs (hs @ [(''Set-Cookie'', v)]) =
           (fst (setAll_forEach X cs []), (hs @ [(''Set-Cookie'', v)]) @ snd (setAll_forEach X cs []))"
        by (rule Cons.IH)
      have b: "setAll_forEach X cs [(''Set-Cookie'', v)] =
           (fst (setAll_forEach X cs []), [(''Set-Cookie'', v)] @ snd (setAll_forEach X cs []))"
        by (rule Cons.IH)
      from Inr v a b show ?thesis by (simp add: Headers_append_def)
    qed
  qed
qed

text \<open>When every instruction yields a header, the loop ends normally with one header each.\<close>

lemma setAll_forEach_all_ok:
  "\<forall>c\<in>set cs. set_cookie_header X c \<noteq> None \<Longrightarrow>
   fst (setAll_forEach X cs []) = None \<and>
   map Some (snd (setAll_forEach X cs [])) = map (set_cookie_header X) cs"
proof (induction cs)
  case Nil
  show ?case by simp
next
  case (Cons c cs)
  from Cons.prems obtain s v where s: "serializeCookieHeader X (c_name c) (c_value c) (c_options c) = Inr s"
    and v: "Headers_value X s = Inr v"
    by (auto simp: set_cookie_header_def split: sum.splits)
  have rest: "setAll_forEach X cs [(''Set-Cookie'', v)] =
           (fst (setAll_forEach X cs []), [(''Set-Cookie'', v)] @ snd (setAll_forEach X cs []))"
    by (rule setAll_forEach_append)
  from Cons have ih: "fst (setAll_forEach X cs []) = None"
    "map Some (snd (setAll_forEach X cs [])) = map (set_cookie_header X) cs" by auto
  show ?case using s v rest ih by (simp add: Headers_append_def set_cookie_header_def)
qed

subsection \<open>The store: own object and frame\<close>

lemma setAll_own:
  "objs (snd (setAll X cm batch st)) (cm_headers cm) = objs st (cm_headers cm) @ snd (setAll_forEach X batch [])"
proof -
  have "setAll_forEach X batch (objs st (cm_headers cm)) =
      (fst (setAll_forEach X batch []), objs st (cm_headers cm) @ snd (setAll_forEach X batch []))"
    by (rule setAll_forEach_append)
  then show ?thesis by (simp add: setAll_def)
qed

lemma setAll_other:
  "a \<noteq> cm_headers cm \<Longrightarrow> objs (snd (setAll X cm batch st)) a = objs st a"
  by (simp add: setAll_def split: prod.splits)

lemma setAll_next_addr: "next_addr (snd (setAll X cm batch st)) = next_addr st"
  by (simp add: setAll_def split: prod.splits)

text \<open>
  After any sequence of invocations, an object holds what it held before, followed by the
  output of the invocations whose callback captured it, in order.
\<close>

lemma invoke_all_objs:
  "objs (invoke_all X ops st) a =
     objs st a @ concat (map (\<lambda>op. snd (setAll_forEach X (snd op) [])) (filter (\<lambda>op. cm_headers (fst op) = a) ops))"
proof (induction ops arbitrary: st)
  case Nil
  show ?case by simp
next
  case (Cons op ops)
  obtain cm batch where op: "op = (cm, batch)" by (cases op)
  show ?case
  proof (cases "cm_headers cm = a")
    case True
    then show ?thesis using Cons.IH [of "snd (setAll X cm batch st)"] setAll_own [of X cm batch st]
      by (simp add: op)
  next
    case False
    then have "a \<noteq> cm_headers cm" by blast
    then show ?thesis using Cons.IH [of "snd (setAll X cm batch st)"] setAll_other [of a cm X batch st] False
      by (simp add: op)
  qed
qed

lemma invoke_all_next_addr: "next_addr (invoke_all X ops st) = next_addr st"
  by (induction ops arbitrary: st) (auto simp: setAll_next_addr)

lemma invoke_all_own:
  "objs (invoke_all X (map (Pair cm) batches) st) (cm_headers cm) =
     objs st (cm_headers cm) @ concat (map (\<lambda>batch. snd (setAll_forEach X batch [])) batches)"
proof -
  have f: "filter (\<lambda>op. cm_headers (fst op) = cm_headers cm) (map (Pair cm) batches) = map (Pair cm) batches"
    by (induction batches) auto
  show ?thesis
    by (simp add: invoke_all_objs f comp_def)
qed

lemma invoke_all_interleaved:
  assumes "cm_headers cmA \<noteq> cm_headers cmB"
  shows "objs (invoke_all X (map (\<lambda>op. (if fst op then cmA else cmB, snd op)) ops) st) (cm_headers cmA)
           = objs st (cm_headers cmA) @ concat (map (\<lambda>op. snd (setAll_forEach X (snd op) [])) (filter fst ops))"
    and "objs (invoke_all X (map (\<lambda>op. (if fst op then cmA else cmB, snd op)) ops) st) (cm_headers cmB)
           = objs st (cm_headers cmB) @ concat (map (\<lambda>op. snd (setAll_forEach X (snd op) [])) (filter (\<lambda>op. \<not> fst op) ops))"
proof -
  have fa: "map (\<lambda>op. snd (setAll_forEach X (snd op) []))
              (filter (\<lambda>op. cm_headers (fst op) = cm_headers cmA) (map (\<lambda>op. (if fst op then cmA else cmB, snd op)) ops))
          = map (\<lambda>op. snd (setAll_forEach X (snd op) [])) (filter fst ops)"
    using assms by (induction ops) auto
  have fb: "map (\<lambda>op. snd (setAll_forEach X (snd op) []))
              (filter (\<lambda>op. cm_headers (fst op) = cm_headers cmB) (map (\<lambda>op. (if fst op then cmA else cmB, snd op)) ops))
          = map (\<lambda>op. snd (setAll_forEach X (snd op) [])) (filter (\<lambda>op. \<not> fst op) ops)"
    using assms by (induction ops) auto
  show "objs (invoke_all X (map (\<lambda>op. (if fst op then cmA else cmB, snd op)) ops) st) (cm_headers cmA)
           = objs st (cm_headers cmA) @ concat (map (\<lambda>op. snd (setAll_forEach X (snd op) [])) (filter fst ops))"
    by (simp only: invoke_all_objs fa)
  show "objs (invoke_all X (map (\<lambda>op. (if fst op then cmA else cmB, snd op)) ops) st) (cm_headers cmB)
           = objs st (cm_headers cmB) @ concat (map (\<lambda>op. snd (setAll_forEach X (snd op) [])) (filter (\<lambda>op. \<not> fst op) ops))"
    by (simp only: invoke_all_objs fb)
qed

lemma produced_all_ok:
  "\<forall>batch\<in>set batches. \<forall>c\<in>set batch. set_cookie_header X c \<noteq> None \<Longrightarrow>
   map Some (concat (map (\<lambda>batch. snd (setAll_forEach X batch [])) batches)) =
   map (set_cookie_header X) (concat batches)"
proof (induction batches)
  case Nil
  show ?case by simp
next
  case (Cons batch batches)
  then have "map Some (snd (setAll_forEach X batch [])) = map (set_cookie_header X) batch"
    using setAll_forEach_all_ok [of batch X] by simp
  with Cons show ?case by simp
qed

lemma length_concat_singletons:
  "\<forall>batch\<in>set batches. length batch = 1 \<Longrightarrow> sum_list (map length batches) = length batches"
  by (induction batches) auto

subsection \<open>What getServerClient returns\<close>

lemma getServerClient_Inr:
  assumes "getServerClient X env request st = (Inr b, st1)"
  shows "headers b = next_addr st"
    and "cookies (client b) = \<lparr>cm_request = request, cm_headers = next_addr st\<rparr>"
    and "supabaseUrl (client b) = env ''SUPABASE_URL''"
    and "supabaseKey (client b) = env ''SUPABASE_ANON_KEY''"
    and "objs st1 (next_addr st) = []"
    and "next_addr st1 = Suc (next_addr st)"
  using assms
  by (auto simp: getServerClient_def new_Headers_def createServerClient_def split: option.splits)

section \<open>Properties of the crud actions\<close>

lemma crud_action_returns: "\<exists>r. fst (crud_action gsc request) = Inr r"
  by (cases "crud_action_try gsc request"; cases "fst (crud_action_try gsc request)")
     (auto simp: crud_action_def)

lemma crud_action_catch:
  "fst (crud_action_try gsc request) = Inl e \<Longrightarrow>
   fst (crud_action gsc request) = Inr \<lparr>ar_data = Null, ar_error = Val ''An error occurred''\<rparr>"
  by (cases "crud_action_try gsc request") (auto simp: crud_action_def)

lemma crud_action_try_formData:
  "req_formData request = Inl e \<Longrightarrow> \<exists>e'. fst (crud_action_try gsc request) = Inl e'"
  by (cases "gsc request") (auto simp: crud_action_try_def)

lemma await_query_rejects:
  assumes "sh_from sb = Some run" and "\<forall>call. isl (run call)"
  shows "\<exists>e. await_query sb call = (Inl e, [call])"
proof -
  have "isl (run call)" using assms(2) by blast
  then obtain e where "run call = Inl e" by (auto simp: isl_def)
  then show ?thesis using assms(1) by (simp add: await_query_def)
qed

lemma crud_action_try_query:
  assumes "gsc request = Inr sb" and "req_formData request = Inr formData"
      and "sh_from sb = Some run" and "\<forall>call. isl (run call)"
      and "FormData_get formData ''actionType'' \<in>
             {Some (FString ''addItem''), Some (FString ''editItem''), Some (FString ''deleteItem'')}"
  shows "\<exists>e'. fst (crud_action_try gsc request) = Inl e'"
proof -
  note q = await_query_rejects [OF assms(3,4)]
  consider "FormData_get formData ''actionType'' = Some (FString ''addItem'')"
    | "FormData_get formData ''actionType'' = Some (FString ''editItem'')"
    | "FormData_get formData ''actionType'' = Some (FString ''deleteItem'')"
    using assms(5) by blast
  then show ?thesis
  proof cases
    case 1
    show ?thesis
      using assms(1,2) 1
        q [of "\<lparr>call_table = ''items'',
                   call_query = Insert [(''name'', FormData_get formData ''name''), (''description'', FormData_get formData ''description'')],
                   call_eq = None, call_select = Some ''*''\<rparr>"]
      by (auto simp: crud_action_try_def Let_def)
  next
    case 2
    show ?thesis
      using assms(1,2) 2
        q [of "\<lparr>call_table = ''items'',
                   call_query = Update [(''name'', FormData_get formData ''name''), (''description'', FormData_get formData ''description'')],
                   call_eq = Some (''id'', FormData_get formData ''id''), call_select = Some ''*''\<rparr>"]
      by (auto simp: crud_action_try_def Let_def)
  next
    case 3
    show ?thesis
      using assms(1,2) 3
        q [of "\<lparr>call_table = ''items'', call_query = Delete,
                   call_eq = Some (''id'', FormData_get formData ''id''), call_select = None\<rparr>"]
      by (auto simp: crud_action_try_def Let_def)
  qed
qed

lemma crud_action_part000_returns: "\<exists>r. fst (crud_action_part000 gsc request) = Inr r"
  by (cases "crud_action_part000_try gsc request"; cases "fst (crud_action_part000_try gsc request)")
     (auto simp: crud_action_part000_def)

lemma crud_action_part000_catch:
  "fst (crud_action_part000_try gsc request) = Inl e \<Longrightarrow>
   fst (crud_action_part000 gsc request) =
     Inr \<lparr>ar_data = Null, ar_error = Val (ErrString ''An error occurred'')\<rparr>"
  by (cases "crud_action_part000_try gsc request") (auto simp: crud_action_part000_def)

lemma crud_action_part000_try_formData:
  "req_formData request = Inl e \<Longrightarrow> \<exists>e'. fst (crud_action_part000_try gsc request) = Inl e'"
  by (cases "gsc request") (auto simp: crud_action_part000_try_def)

lemma crud_action_part000_try_query:
  assumes "gsc request = Inr sb" and "req_formData request = Inr formData"
      and "sh_from sb = Some run" and "\<forall>call. isl (run call)"
      and "FormData_get formData ''actionType'' \<in>
             {Some (FString ''addItem''), Some (FString ''editItem''), Some (FString ''deleteItem'')}"
  shows "\<exists>e'. fst (crud_action_part000_try gsc request) = Inl e'"
proof -
  note q = await_query_rejects [OF assms(3,4)]
  consider "FormData_get formData ''actionType'' = Some (FString ''addItem'')"
    | "FormData_get formData ''actionType'' = Some (FString ''editItem'')"
    | "FormData_get formData ''actionType'' = Some (FString ''deleteItem'')"
    using assms(5) by blast
  then show ?thesis
  proof cases
    case 1
    show ?thesis
      using assms(1,2) 1
        q [of "\<lparr>call_table = ''items'',
                   call_query = Insert [(''name'', FormData_get formData ''name''), (''description'', FormData_get formData ''description'')],
                   call_eq = None, call_select = None\<rparr>"]
      by (auto simp: crud_action_part000_try_def Let_def)
  next
    case 2
    show ?thesis
      using assms(1,2) 2
        q [of "\<lparr>call_table = ''items'',
                   call_query = Update [(''name'', FormData_get formData ''name''), (''description'', FormData_get formData ''description'')],
                   call_eq = Some (''id'', FormData_get formData ''id''), call_select = None\<rparr>"]
      by (auto simp: crud_action_part000_try_def Let_def)
  next
    case 3
    show ?thesis
      using assms(1,2) 3
        q [of "\<lparr>call_table = ''items'', call_query = Delete,
                   call_eq = Some (''id'', FormData_get formData ''id''), call_select = None\<rparr>"]
      by (auto simp: crud_action_part000_try_def Let_def)
  qed
qed

section \<open>The claims\<close>

subsection \<open>C1: one header per cookie instruction\<close>

text \<open>
  Claim C1 says that N invocations of the write callback leave exactly N headers. The
  callback takes a batch (\<open>cookiesToSet.forEach\<close>, lines 15 to 20), and appends one header
  for each instruction of the batch: a single invocation with the batch \<open>sid=old\<close>,
  \<open>sid=new\<close> leaves two headers, not one.
\<close>

theorem setAll_batch_counterexample:
  "fst (getServerClient sample_externals sample_env (cookie_request None) empty_store)
     = Inr (sample_bridge (cookie_request None) 0)
   \<and> objs (invoke_all sample_externals
             [(cookies (client (sample_bridge (cookie_request None) 0)), [sid ''old'', sid ''new''])]
             (sample_created (cookie_request None) empty_store)) 0
       = [(''Set-Cookie'', ''sid=old; Path=/''), (''Set-Cookie'', ''sid=new; Path=/'')]
   \<and> length (objs (invoke_all sample_externals
             [(cookies (client (sample_bridge (cookie_request None) 0)), [sid ''old'', sid ''new''])]
             (sample_created (cookie_request None) empty_store)) 0)
       \<noteq> length [[sid ''old'', sid ''new'']]"
  by (simp add: getServerClient_def new_Headers_def createServerClient_def sample_externals_def
        sample_env_def empty_store_def cookie_request_def sample_bridge_def sample_created_def
        sid_def setAll_def Headers_append_def getAll_def sample_parse_def)

text \<open>
  Claim C1, amended: for every request, after any sequence of invocations of the handle's
  write callback in which every instruction is serialised and accepted by
  \<open>Headers.append\<close>, the accumulator holds exactly one \<open>Set-Cookie\<close> header for each
  instruction, in the order of the invocations and, within an invocation, of its batch.
  Their number is the sum of the batch sizes; it is the number N of invocations when every
  invocation carries one instruction. Two instructions of the same name both appear, in
  order.
\<close>

theorem setAll_one_header_per_instruction:
  assumes "getServerClient X env request st = (Inr b, st1)"
      and "\<forall>batch\<in>set batches. \<forall>c\<in>set batch. set_cookie_header X c \<noteq> None"
  shows "map Some (objs (invoke_all X (map (Pair (cookies (client b))) batches) st1) (headers b))
           = map (set_cookie_header X) (concat batches)
       \<and> length (objs (invoke_all X (map (Pair (cookies (client b))) batches) st1) (headers b))
           = sum_list (map length batches)
       \<and> ((\<forall>batch\<in>set batches. length batch = 1) \<longrightarrow>
            length (objs (invoke_all X (map (Pair (cookies (client b))) batches) st1) (headers b))
              = length batches)"
proof -
  let ?acc = "objs (invoke_all X (map (Pair (cookies (client b))) batches) st1) (headers b)"
  have h: "cm_headers (cookies (client b)) = headers b" and e: "objs st1 (headers b) = []"
    using getServerClient_Inr [OF assms(1)] by simp_all
  have acc: "?acc = concat (map (\<lambda>batch. snd (setAll_forEach X batch [])) batches)"
    using invoke_all_own [of X "cookies (client b)" batches st1] h e by simp
  have m: "map Some ?acc = map (set_cookie_header X) (concat batches)"
    using produced_all_ok [OF assms(2)] acc by simp
  have "length (map Some ?acc) = length (map (set_cookie_header X) (concat batches))"
    using m by simp
  then have l: "length ?acc = sum_list (map length batches)"
    by (simp add: length_concat)
  show ?thesis using m l length_concat_singletons [of batches] by simp
qed

text \<open>At \<open>sid=old\<close> then \<open>sid=new\<close>, one instruction in each of two invocations.\<close>

theorem setAll_one_header_per_instruction_witness:
  "getServerClient sample_externals sample_env (cookie_request None) empty_store
     = (Inr (sample_bridge (cookie_request None) 0), sample_created (cookie_request None) empty_store)
   \<and> set_cookie_header sample_externals (sid ''old'') = Some (''Set-Cookie'', ''sid=old; Path=/'')
   \<and> set_cookie_header sample_externals (sid ''new'') = Some (''Set-Cookie'', ''sid=new; Path=/'')
   \<and> map Some (objs (invoke_all sample_externals
                  (map (Pair (cookies (client (sample_bridge (cookie_request None) 0))))
                     [[sid ''old''], [sid ''new'']])
                  (sample_created (cookie_request None) empty_store))
              (headers (sample_bridge (cookie_request None) 0)))
       = [Some (''Set-Cookie'', ''sid=old; Path=/''), Some (''Set-Cookie'', ''sid=new; Path=/'')]
   \<and> length (objs (invoke_all sample_externals
                  (map (Pair (cookies (client (sample_bridge (cookie_request None) 0))))
                     [[sid ''old''], [sid ''new'']])
                  (sample_created (cookie_request None) empty_store))
              (headers (sample_bridge (cookie_request None) 0))) = 2"
proof -
  have h1: "getServerClient sample_externals sample_env (cookie_request None) empty_store
     = (Inr (sample_bridge (cookie_request None) 0), sample_created (cookie_request None) empty_store)"
    by (simp add: getServerClient_def new_Headers_def createServerClient_def sample_externals_def
        sample_env_def empty_store_def sample_bridge_def sample_created_def)
  have s1: "set_cookie_header sample_externals (sid ''old'') = Some (''Set-Cookie'', ''sid=old; Path=/'')"
    by (simp add: set_cookie_header_def sample_externals_def sid_def)
  have s2: "set_cookie_header sample_externals (sid ''new'') = Some (''Set-Cookie'', ''sid=new; Path=/'')"
    by (simp add: set_cookie_header_def sample_externals_def sid_def)
  have h2: "\<forall>batch\<in>set [[sid ''old''], [sid ''new'']]. \<forall>c\<in>set batch.
              set_cookie_header sample_externals c \<noteq> None"
    using s1 s2 by simp
  note t = setAll_one_header_per_instruction [OF h1 h2]
  show ?thesis using h1 s1 s2 t by simp
qed

subsection \<open>C2: the returned headers object is the one the callback writes\<close>

text \<open>
  Claim C2: the \<open>headers\<close> that \<open>getServerClient\<close> returns beside the client is the
  object captured by the client's write callback. Whatever the callback appends, in any
  later store, is read through the returned \<open>headers\<close>; after any sequence of invocations
  the returned object holds all they produced.
\<close>

theorem returned_headers_is_written_object:
  assumes "getServerClient X env request st = (Inr b, st1)"
  shows "cm_headers (cookies (client b)) = headers b
       \<and> (\<forall>batch st2. objs (snd (setAll X (cookies (client b)) batch st2)) (headers b)
             = objs st2 (headers b) @ snd (setAll_forEach X batch []))
       \<and> (\<forall>batches. objs (invoke_all X (map (Pair (cookies (client b))) batches) st1) (headers b)
             = concat (map (\<lambda>batch. snd (setAll_forEach X batch [])) batches))"
proof -
  have h: "cm_headers (cookies (client b)) = headers b" and e: "objs st1 (headers b) = []"
    using getServerClient_Inr [OF assms] by simp_all
  have one: "\<And>batch st2. objs (snd (setAll X (cookies (client b)) batch st2)) (headers b)
             = objs st2 (headers b) @ snd (setAll_forEach X batch [])"
    using setAll_own [of X "cookies (client b)"] h by simp
  have many: "\<And>batches. objs (invoke_all X (map (Pair (cookies (client b))) batches) st1) (headers b)
             = concat (map (\<lambda>batch. snd (setAll_forEach X batch [])) batches)"
    using invoke_all_own [of X "cookies (client b)" _ st1] h e by simp
  show ?thesis using h one many by blast
qed

text \<open>At the instruction \<open>sid=newtoken\<close> with path \<open>/\<close>.\<close>

theorem returned_headers_is_written_object_witness:
  "getServerClient sample_externals sample_env (cookie_request None) empty_store
     = (Inr (sample_bridge (cookie_request None) 0), sample_created (cookie_request None) empty_store)
   \<and> cm_headers (cookies (client (sample_bridge (cookie_request None) 0)))
       = headers (sample_bridge (cookie_request None) 0)
   \<and> objs (snd (setAll sample_externals (cookies (client (sample_bridge (cookie_request None) 0)))
                  [\<lparr>c_name = ''sid'', c_value = ''newtoken'', c_options = ''; Path=/''\<rparr>]
                  (sample_created (cookie_request None) empty_store)))
          (headers (sample_bridge (cookie_request None) 0))
       = [(''Set-Cookie'', ''sid=newtoken; Path=/'')]"
proof -
  have h1: "getServerClient sample_externals sample_env (cookie_request None) empty_store
     = (Inr (sample_bridge (cookie_request None) 0), sample_created (cookie_request None) empty_store)"
    by (simp add: getServerClient_def new_Headers_def createServerClient_def sample_externals_def
        sample_env_def empty_store_def sample_bridge_def sample_created_def)
  note t = returned_headers_is_written_object [OF h1]
  have e: "objs (sample_created (cookie_request None) empty_store)
             (headers (sample_bridge (cookie_request None) 0)) = []"
    by (simp add: getServerClient_def new_Headers_def createServerClient_def sample_externals_def
        sample_env_def empty_store_def sample_bridge_def sample_created_def)
  have p: "snd (setAll_forEach sample_externals
             [\<lparr>c_name = ''sid'', c_value = ''newtoken'', c_options = ''; Path=/''\<rparr>] [])
           = [(''Set-Cookie'', ''sid=newtoken; Path=/'')]"
    by (simp add: sample_externals_def Headers_append_def)
  from t have "objs (snd (setAll sample_externals (cookies (client (sample_bridge (cookie_request None) 0)))
                  [\<lparr>c_name = ''sid'', c_value = ''newtoken'', c_options = ''; Path=/''\<rparr>]
                  (sample_created (cookie_request None) empty_store)))
          (headers (sample_bridge (cookie_request None) 0))
       = objs (sample_created (cookie_request None) empty_store) (headers (sample_bridge (cookie_request None) 0))
         @ snd (setAll_forEach sample_externals
             [\<lparr>c_name = ''sid'', c_value = ''newtoken'', c_options = ''; Path=/''\<rparr>] [])"
    by blast
  then show ?thesis using h1 t e p by simp
qed

subsection \<open>C3: two bridges are isolated\<close>

text \<open>
  Claim C3: let a bridge be created for request A and, after any writes through it, a
  bridge for request B. Their accumulators are different objects, each empty when created.
  The read callback of each parses the cookie header of its own request, and takes no
  store. After any interleaving of writes through the two callbacks, the accumulator of A
  holds what it held plus the output of the writes through A, and that of B the output of
  the writes through B, each in order.
\<close>

theorem bridges_isolated:
  assumes A: "getServerClient X envA reqA st0 = (Inr a, st1)"
      and B: "getServerClient X envB reqB (invoke_all X (map (Pair (cookies (client a))) pre) st1) = (Inr b, st2)"
  shows "headers a \<noteq> headers b
       \<and> objs st1 (headers a) = [] \<and> objs st2 (headers b) = []
       \<and> getAll X (cookies (client a)) =
           (case parseCookieHeader X (case req_cookie reqA of None \<Rightarrow> [] | Some s \<Rightarrow> s) of
              Inl e \<Rightarrow> Inl e | Inr p \<Rightarrow> Inr (case p of None \<Rightarrow> [] | Some cs \<Rightarrow> cs))
       \<and> getAll X (cookies (client b)) =
           (case parseCookieHeader X (case req_cookie reqB of None \<Rightarrow> [] | Some s \<Rightarrow> s) of
              Inl e \<Rightarrow> Inl e | Inr p \<Rightarrow> Inr (case p of None \<Rightarrow> [] | Some cs \<Rightarrow> cs))
       \<and> (\<forall>ops.
            objs (invoke_all X (map (\<lambda>op. (if fst op then cookies (client a) else cookies (client b), snd op)) ops) st2)
                 (headers a)
              = objs st2 (headers a) @ concat (map (\<lambda>op. snd (setAll_forEach X (snd op) [])) (filter fst ops))
          \<and> objs (invoke_all X (map (\<lambda>op. (if fst op then cookies (client a) else cookies (client b), snd op)) ops) st2)
                 (headers b)
              = concat (map (\<lambda>op. snd (setAll_forEach X (snd op) [])) (filter (\<lambda>op. \<not> fst op) ops)))"
proof -
  let ?mid = "invoke_all X (map (Pair (cookies (client a))) pre) st1"
  note a = getServerClient_Inr [OF A]
  note b = getServerClient_Inr [OF B]
  have na: "next_addr ?mid = Suc (next_addr st0)"
    using a(6) by (simp add: invoke_all_next_addr)
  have ha: "headers a = next_addr st0" and hb: "headers b = Suc (next_addr st0)"
    using a(1) b(1) na by simp_all
  have ne: "headers a \<noteq> headers b" using ha hb by simp
  have ea: "objs st1 (headers a) = []" using a(5) ha by simp
  have eb: "objs st2 (headers b) = []" using b(5) b(1) by simp
  have ga: "getAll X (cookies (client a)) =
           (case parseCookieHeader X (case req_cookie reqA of None \<Rightarrow> [] | Some s \<Rightarrow> s) of
              Inl e \<Rightarrow> Inl e | Inr p \<Rightarrow> Inr (case p of None \<Rightarrow> [] | Some cs \<Rightarrow> cs))"
    using a(2) by (simp add: getAll_def)
  have gb: "getAll X (cookies (client b)) =
           (case parseCookieHeader X (case req_cookie reqB of None \<Rightarrow> [] | Some s \<Rightarrow> s) of
              Inl e \<Rightarrow> Inl e | Inr p \<Rightarrow> Inr (case p of None \<Rightarrow> [] | Some cs \<Rightarrow> cs))"
    using b(2) by (simp add: getAll_def)
  have ca: "cm_headers (cookies (client a)) = headers a" using a(1,2) by simp
  have cb: "cm_headers (cookies (client b)) = headers b" using b(1,2) by simp
  have d: "cm_headers (cookies (client a)) \<noteq> cm_headers (cookies (client b))"
    using ca cb ne by simp
  have il: "\<And>ops.
            objs (invoke_all X (map (\<lambda>op. (if fst op then cookies (client a) else cookies (client b), snd op)) ops) st2)
                 (headers a)
              = objs st2 (headers a) @ concat (map (\<lambda>op. snd (setAll_forEach X (snd op) [])) (filter fst ops))
          \<and> objs (invoke_all X (map (\<lambda>op. (if fst op then cookies (client a) else cookies (client b), snd op)) ops) st2)
                 (headers b)
              = concat (map (\<lambda>op. snd (setAll_forEach X (snd op) [])) (filter (\<lambda>op. \<not> fst op) ops))"
    using invoke_all_interleaved [OF d, of X _ st2] ca cb eb by simp
  show ?thesis using ne ea eb ga gb il by blast
qed

text \<open>At the requests with \<open>sid=abc\<close> and \<open>sid=xyz\<close>, with interleaved writes.\<close>

theorem bridges_isolated_witness:
  "getServerClient sample_externals sample_env (cookie_request (Some ''sid=abc'')) empty_store
     = (Inr (sample_bridge (cookie_request (Some ''sid=abc'')) 0),
        sample_created (cookie_request (Some ''sid=abc'')) empty_store)
   \<and> getServerClient sample_externals sample_env (cookie_request (Some ''sid=xyz''))
        (invoke_all sample_externals
           (map (Pair (cookies (client (sample_bridge (cookie_request (Some ''sid=abc'')) 0)))) [[sid ''a0'']])
           (sample_created (cookie_request (Some ''sid=abc'')) empty_store))
     = (Inr (sample_bridge (cookie_request (Some ''sid=xyz'')) 1),
        sample_created (cookie_request (Some ''sid=xyz''))
          (invoke_all sample_externals
             (map (Pair (cookies (client (sample_bridge (cookie_request (Some ''sid=abc'')) 0)))) [[sid ''a0'']])
             (sample_created (cookie_request (Some ''sid=abc'')) empty_store)))
   \<and> headers (sample_bridge (cookie_request (Some ''sid=abc'')) 0)
       \<noteq> headers (sample_bridge (cookie_request (Some ''sid=xyz'')) 1)
   \<and> getAll sample_externals (cookies (client (sample_bridge (cookie_request (Some ''sid=abc'')) 0)))
       = Inr [(''sid'', ''abc'')]
   \<and> getAll sample_externals (cookies (client (sample_bridge (cookie_request (Some ''sid=xyz'')) 1)))
       = Inr [(''sid'', ''xyz'')]
   \<and> objs (invoke_all sample_externals
             (map (\<lambda>op. (if fst op then cookies (client (sample_bridge (cookie_request (Some ''sid=abc'')) 0))
                          else cookies (client (sample_bridge (cookie_request (Some ''sid=xyz'')) 1)), snd op))
                [(True, [sid ''a1'']), (False, [sid ''b1'']), (True, [sid ''a2''])])
             (sample_created (cookie_request (Some ''sid=xyz''))
                (invoke_all sample_externals
                  (map (Pair (cookies (client (sample_bridge (cookie_request (Some ''sid=abc'')) 0)))) [[sid ''a0'']])
                  (sample_created (cookie_request (Some ''sid=abc'')) empty_store))))
          (headers (sample_bridge (cookie_request (Some ''sid=abc'')) 0))
       = [(''Set-Cookie'', ''sid=a0; Path=/''), (''Set-Cookie'', ''sid=a1; Path=/''),
          (''Set-Cookie'', ''sid=a2; Path=/'')]
   \<and> objs (invoke_all sample_externals
             (map (\<lambda>op. (if fst op then cookies (client (sample_bridge (cookie_request (Some ''sid=abc'')) 0))
                          else cookies (client (sample_bridge (cookie_request (Some ''sid=xyz'')) 1)), snd op))
                [(True, [sid ''a1'']), (False, [sid ''b1'']), (True, [sid ''a2''])])
             (sample_created (cookie_request (Some ''sid=xyz''))
                (invoke_all sample_externals
                  (map (Pair (cookies (client (sample_bridge (cookie_request (Some ''sid=abc'')) 0)))) [[sid ''a0'']])
                  (sample_created (cookie_request (Some ''sid=abc'')) empty_store))))
          (headers (sample_bridge (cookie_request (Some ''sid=xyz'')) 1))
       = [(''Set-Cookie'', ''sid=b1; Path=/'')]"
proof -
  have A: "getServerClient sample_externals sample_env (cookie_request (Some ''sid=abc'')) empty_store
     = (Inr (sample_bridge (cookie_request (Some ''sid=abc'')) 0),
        sample_created (cookie_request (Some ''sid=abc'')) empty_store)"
    by (simp add: getServerClient_def new_Headers_def createServerClient_def sample_externals_def
        sample_env_def empty_store_def sample_bridge_def sample_created_def)
  have B: "getServerClient sample_externals sample_env (cookie_request (Some ''sid=xyz''))
        (invoke_all sample_externals
           (map (Pair (cookies (client (sample_bridge (cookie_request (Some ''sid=abc'')) 0)))) [[sid ''a0'']])
           (sample_created (cookie_request (Some ''sid=abc'')) empty_store))
     = (Inr (sample_bridge (cookie_request (Some ''sid=xyz'')) 1),
        sample_created (cookie_request (Some ''sid=xyz''))
          (invoke_all sample_externals
             (map (Pair (cookies (client (sample_bridge (cookie_request (Some ''sid=abc'')) 0)))) [[sid ''a0'']])
             (sample_created (cookie_request (Some ''sid=abc'')) empty_store)))"
    by (simp add: getServerClient_def new_Headers_def createServerClient_def sample_externals_def
        sample_env_def empty_store_def cookie_request_def sample_bridge_def sample_created_def
        sid_def setAll_def Headers_append_def getAll_def sample_parse_def)
  note t = bridges_isolated [OF A B]
  show ?thesis using A B t by (simp add: getServerClient_def new_Headers_def createServerClient_def sample_externals_def
        sample_env_def empty_store_def cookie_request_def sample_bridge_def sample_created_def
        sid_def setAll_def Headers_append_def getAll_def sample_parse_def)
qed

subsection \<open>C4: absent or empty cookie header\<close>

text \<open>
  Claim C4: for a request whose \<open>Cookie\<close> header is absent or empty, the read callback of
  the bridge returns the empty collection. The absent header is parsed as the empty string
  (\<open>?? ""\<close>) and a nullish result becomes the empty collection (\<open>?? {}\<close>); the parser is
  the library's, and is asked to yield nothing for the empty string.
\<close>

theorem getAll_empty_cookie_header:
  assumes "getServerClient X env request st = (Inr b, st1)"
      and "req_cookie request = None \<or> req_cookie request = Some []"
      and "parseCookieHeader X [] = Inr None \<or> parseCookieHeader X [] = Inr (Some [])"
  shows "getAll X (cookies (client b)) = Inr []"
proof -
  have "cm_request (cookies (client b)) = request"
    using getServerClient_Inr(2) [OF assms(1)] by simp
  then show ?thesis using assms(2,3) by (auto simp: getAll_def)
qed

text \<open>At an absent header, and at an empty header with a parser that answers nullish.\<close>

theorem getAll_empty_cookie_header_witness:
  "getServerClient sample_externals sample_env (cookie_request None) empty_store
     = (Inr (sample_bridge (cookie_request None) 0), sample_created (cookie_request None) empty_store)
   \<and> req_cookie (cookie_request None) = None
   \<and> parseCookieHeader sample_externals [] = Inr (Some [])
   \<and> getAll sample_externals (cookies (client (sample_bridge (cookie_request None) 0))) = Inr []
   \<and> getServerClient nullish_externals sample_env (cookie_request (Some [])) empty_store
     = (Inr (sample_bridge (cookie_request (Some [])) 0),
        snd (getServerClient nullish_externals sample_env (cookie_request (Some [])) empty_store))
   \<and> req_cookie (cookie_request (Some [])) = Some []
   \<and> parseCookieHeader nullish_externals [] = Inr None
   \<and> getAll nullish_externals (cookies (client (sample_bridge (cookie_request (Some [])) 0))) = Inr []"
proof -
  have a1: "getServerClient sample_externals sample_env (cookie_request None) empty_store
     = (Inr (sample_bridge (cookie_request None) 0), sample_created (cookie_request None) empty_store)"
    by (simp add: getServerClient_def new_Headers_def createServerClient_def sample_externals_def
        sample_env_def empty_store_def sample_bridge_def sample_created_def)
  have a2: "req_cookie (cookie_request None) = None \<or> req_cookie (cookie_request None) = Some []"
    by (simp add: cookie_request_def)
  have a3: "parseCookieHeader sample_externals [] = Inr None
          \<or> parseCookieHeader sample_externals [] = Inr (Some [])"
    by (simp add: sample_externals_def sample_parse_def)
  have b1: "getServerClient nullish_externals sample_env (cookie_request (Some [])) empty_store
     = (Inr (sample_bridge (cookie_request (Some [])) 0),
        snd (getServerClient nullish_externals sample_env (cookie_request (Some [])) empty_store))"
    by (simp add: getServerClient_def new_Headers_def createServerClient_def sample_externals_def
        sample_env_def empty_store_def sample_bridge_def sample_created_def nullish_externals_def)
  have b2: "req_cookie (cookie_request (Some [])) = None \<or> req_cookie (cookie_request (Some [])) = Some []"
    by (simp add: cookie_request_def)
  have b3: "parseCookieHeader nullish_externals [] = Inr None
          \<or> parseCookieHeader nullish_externals [] = Inr (Some [])"
    by (simp add: sample_externals_def nullish_externals_def)
  note ta = getAll_empty_cookie_header [OF a1 a2 a3]
  note tb = getAll_empty_cookie_header [OF b1 b2 b3]
  have c: "req_cookie (cookie_request None) = None" "parseCookieHeader sample_externals [] = Inr (Some [])"
    "req_cookie (cookie_request (Some [])) = Some []" "parseCookieHeader nullish_externals [] = Inr None"
    by (simp_all add: cookie_request_def sample_externals_def sample_parse_def nullish_externals_def)
  show ?thesis using a1 b1 ta tb c by blast
qed

subsection \<open>C5: the configuration values\<close>

text \<open>
  Claim C5 says that the two configuration values are checked for presence when the
  process starts. Nothing in the module does so: with both values absent, loading the
  module succeeds, and the absence shows when a request is handled.
\<close>

theorem config_absent_counterexample:
  "server_module_init empty_env = None
   \<and> fst (getServerClient sample_externals empty_env (cookie_request None) empty_store)
       = Inl (Error ''URL and Key are required'')"
  by (simp add: server_module_init_def empty_env_def getServerClient_def new_Headers_def createServerClient_def sample_externals_def
        sample_env_def sample_bridge_def empty_store_def)

text \<open>
  Claim C5, amended: loading the server module never fails, whatever the environment holds.
  \<open>getServerClient\<close> reads the two values from the environment each time it is called and
  hands them, present or absent, to \<open>createServerClient\<close>; the call fails exactly when
  that constructor refuses them, and otherwise returns the bridge built from them.
\<close>

theorem config_read_on_each_call:
  "server_module_init env = None
   \<and> fst (getServerClient X env request st) =
       (case createServerClient_check X (env ''SUPABASE_URL'') (env ''SUPABASE_ANON_KEY'') of
          Some e \<Rightarrow> Inl e
        | None \<Rightarrow>
            Inr \<lparr>client = \<lparr>supabaseUrl = env ''SUPABASE_URL'', supabaseKey = env ''SUPABASE_ANON_KEY'',
                            cookies = \<lparr>cm_request = request, cm_headers = next_addr st\<rparr>\<rparr>,
                 headers = next_addr st\<rparr>)"
  by (simp add: server_module_init_def getServerClient_def new_Headers_def createServerClient_def
           split: option.splits)

text \<open>At the sample environment and at the empty one.\<close>

theorem config_read_on_each_call_witness:
  "server_module_init sample_env = None
   \<and> fst (getServerClient sample_externals sample_env (cookie_request None) empty_store)
       = Inr (sample_bridge (cookie_request None) 0)
   \<and> fst (getServerClient sample_externals empty_env (cookie_request None) empty_store)
       = Inl (Error ''URL and Key are required'')"
  using config_read_on_each_call [of sample_env sample_externals "cookie_request None" empty_store]
        config_read_on_each_call [of empty_env sample_externals "cookie_request None" empty_store]
  by (simp add: empty_env_def getServerClient_def new_Headers_def createServerClient_def sample_externals_def
        sample_env_def sample_bridge_def empty_store_def)

subsection \<open>C6: what getServerClient and the read callback raise\<close>




subsection \<open>C8: the crud actions return and never throw\<close>

text \<open>
  Claim C8: for every provider of the client and every request, both versions of the crud
  action return a value; no exception leaves them. Whenever the body of the \<open>try\<close> block
  throws, the result is \<open>{ data: null, error: "An error occurred" }\<close>: this is so when
  \<open>request.formData()\<close> rejects, and when the query of an add, edit or delete rejects.
\<close>

theorem crud_action_never_throws:
  "(\<exists>r. fst (crud_action gsc request) = Inr r)
 \<and> (\<forall>e. fst (crud_action_try gsc request) = Inl e \<longrightarrow>
        fst (crud_action gsc request) = Inr \<lparr>ar_data = Null, ar_error = Val ''An error occurred''\<rparr>)
 \<and> (\<forall>e. req_formData request = Inl e \<longrightarrow>
        fst (crud_action gsc request) = Inr \<lparr>ar_data = Null, ar_error = Val ''An error occurred''\<rparr>)
 \<and> (\<forall>sb formData run.
        gsc request = Inr sb \<and> req_formData request = Inr formData \<and>
        sh_from sb = Some run \<and> (\<forall>call. isl (run call)) \<and>
        FormData_get formData ''actionType'' \<in>
          {Some (FString ''addItem''), Some (FString ''editItem''), Some (FString ''deleteItem'')} \<longrightarrow>
        fst (crud_action gsc request) = Inr \<lparr>ar_data = Null, ar_error = Val ''An error occurred''\<rparr>)
 \<and> (\<exists>r. fst (crud_action_part000 gsc request) = Inr r)
 \<and> (\<forall>e. fst (crud_action_part000_try gsc request) = Inl e \<longrightarrow>
        fst (crud_action_part000 gsc request) =
          Inr \<lparr>ar_data = Null, ar_error = Val (ErrString ''An error occurred'')\<rparr>)
 \<and> (\<forall>e. req_formData request = Inl e \<longrightarrow>
        fst (crud_action_part000 gsc request) =
          Inr \<lparr>ar_data = Null, ar_error = Val (ErrString ''An error occurred'')\<rparr>)
 \<and> (\<forall>sb formData run.
        gsc request = Inr sb \<and> req_formData request = Inr formData \<and>
        sh_from sb = Some run \<and> (\<forall>call. isl (run call)) \<and>
        FormData_get formData ''actionType'' \<in>
          {Some (FString ''addItem''), Some (FString ''editItem''), Some (FString ''deleteItem'')} \<longrightarrow>
        fst (crud_action_part000 gsc request) =
          Inr \<lparr>ar_data = Null, ar_error = Val (ErrString ''An error occurred'')\<rparr>)"
proof (intro conjI allI impI)
  show "\<exists>r. fst (crud_action gsc request) = Inr r" by (rule crud_action_returns)
  show "\<exists>r. fst (crud_action_part000 gsc request) = Inr r" by (rule crud_action_part000_returns)
next
  fix e assume "fst (crud_action_try gsc request) = Inl e"
  then show "fst (crud_action gsc request) = Inr \<lparr>ar_data = Null, ar_error = Val ''An error occurred''\<rparr>"
    by (rule crud_action_catch)
next
  fix e assume "req_formData request = Inl e"
  then show "fst (crud_action gsc request) = Inr \<lparr>ar_data = Null, ar_error = Val ''An error occurred''\<rparr>"
    using crud_action_try_formData crud_action_catch by blast
next
  fix sb formData run
  assume "gsc request = Inr sb \<and> req_formData request = Inr formData \<and>
        sh_from sb = Some run \<and> (\<forall>call. isl (run call)) \<and>
        FormData_get formData ''actionType'' \<in>
          {Some (FString ''addItem''), Some (FString ''editItem''), Some (FString ''deleteItem'')}"
  then have "\<exists>e'. fst (crud_action_try gsc request) = Inl e'"
    using crud_action_try_query [of gsc request sb formData run] by blast
  then show "fst (crud_action gsc request) = Inr \<lparr>ar_data = Null, ar_error = Val ''An error occurred''\<rparr>"
    using crud_action_catch by blast
next
  fix e assume "fst (crud_action_part000_try gsc request) = Inl e"
  then show "fst (crud_action_part000 gsc request) =
          Inr \<lparr>ar_data = Null, ar_error = Val (ErrString ''An error occurred'')\<rparr>"
    by (rule crud_action_part000_catch)
next
  fix e assume "req_formData request = Inl e"
  then show "fst (crud_action_part000 gsc request) =
          Inr \<lparr>ar_data = Null, ar_error = Val (ErrString ''An error occurred'')\<rparr>"
    using crud_action_part000_try_formData crud_action_part000_catch by blast
next
  fix sb formData run
  assume "gsc request = Inr sb \<and> req_formData request = Inr formData \<and>
        sh_from sb = Some run \<and> (\<forall>call. isl (run call)) \<and>
        FormData_get formData ''actionType'' \<in>
          {Some (FString ''addItem''), Some (FString ''editItem''), Some (FString ''deleteItem'')}"
  then have "\<exists>e'. fst (crud_action_part000_try gsc request) = Inl e'"
    using crud_action_part000_try_query [of gsc request sb formData run] by blast
  then show "fst (crud_action_part000 gsc request) =
          Inr \<lparr>ar_data = Null, ar_error = Val (ErrString ''An error occurred'')\<rparr>"
    using crud_action_part000_catch by blast
qed

text \<open>
  At a request whose form does not parse, at an unreachable service, at the provider of
  app/server.ts, and at a service that answers.
\<close>

theorem crud_action_never_throws_witness:
  "req_formData \<lparr>req_cookie = None, req_formData = Inl TypeError\<rparr> = Inl TypeError
   \<and> fst (crud_action (sample_gsc no_user) \<lparr>req_cookie = None, req_formData = Inl TypeError\<rparr>)
       = Inr \<lparr>ar_data = Null, ar_error = Val ''An error occurred''\<rparr>
   \<and> fst (crud_action_part000 (sample_gsc no_user) \<lparr>req_cookie = None, req_formData = Inl TypeError\<rparr>)
       = Inr \<lparr>ar_data = Null, ar_error = Val (ErrString ''An error occurred'')\<rparr>
   \<and> fst (crud_action_try (\<lambda>r. Inr rejecting_handle) (form_request [(''actionType'', FString ''deleteItem''), (''id'', FString ''7'')]))
       = Inl (Error ''fetch failed'')
   \<and> fst (crud_action (\<lambda>r. Inr rejecting_handle) (form_request [(''actionType'', FString ''deleteItem''), (''id'', FString ''7'')]))
       = Inr \<lparr>ar_data = Null, ar_error = Val ''An error occurred''\<rparr>
   \<and> fst (crud_action_part000_try (\<lambda>r. Inr rejecting_handle) (form_request [(''actionType'', FString ''deleteItem''), (''id'', FString ''7'')]))
       = Inl (Error ''fetch failed'')
   \<and> fst (crud_action_part000 (\<lambda>r. Inr rejecting_handle) (form_request [(''actionType'', FString ''deleteItem''), (''id'', FString ''7'')]))
       = Inr \<lparr>ar_data = Null, ar_error = Val (ErrString ''An error occurred'')\<rparr>
   \<and> fst (crud_action_try server_ts_gsc (form_request [(''actionType'', FString ''addItem''), (''name'', FString ''pen'')]))
       = Inl TypeError
   \<and> fst (crud_action server_ts_gsc (form_request [(''actionType'', FString ''addItem''), (''name'', FString ''pen'')]))
       = Inr \<lparr>ar_data = Null, ar_error = Val ''An error occurred''\<rparr>
   \<and> crud_action (sample_gsc no_user) (form_request [(''actionType'', FString ''addItem''), (''name'', FString ''pen'')])
       = (Inr \<lparr>ar_data = Val ''row'', ar_error = Absent\<rparr>,
          [\<lparr>call_table = ''items'',
            call_query = Insert [(''name'', Some (FString ''pen'')), (''description'', None)],
            call_eq = None, call_select = Some ''*''\<rparr>])"
proof -
  let ?bad = "\<lparr>req_cookie = None, req_formData = Inl TypeError\<rparr>"
  let ?del = "form_request [(''actionType'', FString ''deleteItem''), (''id'', FString ''7'')]"
  let ?add = "form_request [(''actionType'', FString ''addItem''), (''name'', FString ''pen'')]"
  note t1 = crud_action_never_throws [of "sample_gsc no_user" ?bad]
  note t2 = crud_action_never_throws [of "\<lambda>r. Inr rejecting_handle" ?del]
  note t3 = crud_action_never_throws [of server_ts_gsc ?add]
  have f: "req_formData ?bad = Inl TypeError" by simp
  have a: "fst (crud_action (sample_gsc no_user) ?bad) = Inr \<lparr>ar_data = Null, ar_error = Val ''An error occurred''\<rparr>"
    "fst (crud_action_part000 (sample_gsc no_user) ?bad) = Inr \<lparr>ar_data = Null, ar_error = Val (ErrString ''An error occurred'')\<rparr>"
    using t1 f by blast+
  have d: "fst (crud_action_try (\<lambda>r. Inr rejecting_handle) ?del) = Inl (Error ''fetch failed'')"
    "fst (crud_action_part000_try (\<lambda>r. Inr rejecting_handle) ?del) = Inl (Error ''fetch failed'')"
    by (simp_all add: crud_action_try_def crud_action_part000_try_def await_query_def
        FormData_get_def form_request_def rejecting_handle_def Let_def)
  have d': "fst (crud_action (\<lambda>r. Inr rejecting_handle) ?del) = Inr \<lparr>ar_data = Null, ar_error = Val ''An error occurred''\<rparr>"
    "fst (crud_action_part000 (\<lambda>r. Inr rejecting_handle) ?del) = Inr \<lparr>ar_data = Null, ar_error = Val (ErrString ''An error occurred'')\<rparr>"
    using t2 d by blast+
  have s: "fst (crud_action_try server_ts_gsc ?add) = Inl TypeError"
    by (simp add: crud_action_try_def await_query_def FormData_get_def form_request_def
        server_ts_gsc_def bridge_as_handle_def Let_def getServerClient_def
        new_Headers_def createServerClient_def sample_externals_def
        sample_env_def empty_store_def sample_bridge_def sample_created_def)
  have s': "fst (crud_action server_ts_gsc ?add) = Inr \<lparr>ar_data = Null, ar_error = Val ''An error occurred''\<rparr>"
    using t3 s by blast
  have n: "crud_action (sample_gsc no_user) ?add
       = (Inr \<lparr>ar_data = Val ''row'', ar_error = Absent\<rparr>,
          [\<lparr>call_table = ''items'',
            call_query = Insert [(''name'', Some (FString ''pen'')), (''description'', None)],
            call_eq = None, call_select = Some ''*''\<rparr>])"
    by (simp add: crud_action_def crud_action_try_def await_query_def FormData_get_def
        first_or_null_def sample_gsc_def sample_handle_def form_request_def Let_def)
  show ?thesis using f a d d' s s' n by simp
qed

subsection \<open>C9: an unknown action type\<close>

text \<open>
  Claim C9 says that every submission with an unknown action type is answered with
  \<open>{ data: null, error: "Invalid action type" }\<close>. The call \<open>getServerClient(request)\<close>
  is the first statement of the \<open>try\<close> block, before the form is read: when it throws,
  the \<open>catch\<close> answers \<open>"An error occurred"\<close>, whatever the action type.
\<close>

theorem crud_action_throwing_client_counterexample:
  "absent_config_gsc (form_request [(''actionType'', FString ''purge'')])
     = Inl (Error ''URL and Key are required'')
   \<and> FormData_get [(''actionType'', FString ''purge'')] ''actionType'' = Some (FString ''purge'')
   \<and> crud_action absent_config_gsc (form_request [(''actionType'', FString ''purge'')])
       = (Inr \<lparr>ar_data = Null, ar_error = Val ''An error occurred''\<rparr>, [])
   \<and> crud_action_part000 absent_config_gsc (form_request [(''actionType'', FString ''purge'')])
       = (Inr \<lparr>ar_data = Null, ar_error = Val (ErrString ''An error occurred'')\<rparr>, [])
   \<and> fst (crud_action absent_config_gsc (form_request [(''actionType'', FString ''purge'')]))
       \<noteq> Inr \<lparr>ar_data = Null, ar_error = Val ''Invalid action type''\<rparr>"
  by (simp add: absent_config_gsc_def getServerClient_def new_Headers_def createServerClient_def
        sample_externals_def empty_env_def crud_action_def crud_action_try_def
        crud_action_part000_def crud_action_part000_try_def FormData_get_def form_request_def)

text \<open>
  Claim C9, amended: for every form submission whose field \<open>actionType\<close> is none of
  \<open>addItem\<close>, \<open>editItem\<close>, \<open>deleteItem\<close> (also when it is absent), both versions of
  the crud action make no call to the remote service. They return
  \<open>{ data: null, error: "Invalid action type" }\<close> when \<open>getServerClient\<close> returned, and
  \<open>{ data: null, error: "An error occurred" }\<close> when it threw.
\<close>

theorem crud_action_invalid_action_type:
  assumes "req_formData request = Inr formData"
      and "FormData_get formData ''actionType'' \<notin>
             {Some (FString ''addItem''), Some (FString ''editItem''), Some (FString ''deleteItem'')}"
  shows "(\<forall>sb. gsc request = Inr sb \<longrightarrow>
            crud_action gsc request =
              (Inr \<lparr>ar_data = Null, ar_error = Val ''Invalid action type''\<rparr>, [])
          \<and> crud_action_part000 gsc request =
              (Inr \<lparr>ar_data = Null, ar_error = Val (ErrString ''Invalid action type'')\<rparr>, []))
       \<and> (\<forall>e. gsc request = Inl e \<longrightarrow>
            crud_action gsc request =
              (Inr \<lparr>ar_data = Null, ar_error = Val ''An error occurred''\<rparr>, [])
          \<and> crud_action_part000 gsc request =
              (Inr \<lparr>ar_data = Null, ar_error = Val (ErrString ''An error occurred'')\<rparr>, []))
       \<and> snd (crud_action gsc request) = []
       \<and> snd (crud_action_part000 gsc request) = []"
proof -
  have n: "FormData_get formData ''actionType'' \<noteq> Some (FString ''addItem'')"
    "FormData_get formData ''actionType'' \<noteq> Some (FString ''editItem'')"
    "FormData_get formData ''actionType'' \<noteq> Some (FString ''deleteItem'')"
    using assms(2) by simp_all
  have ok: "crud_action gsc request =
              (Inr \<lparr>ar_data = Null, ar_error = Val ''Invalid action type''\<rparr>, [])
          \<and> crud_action_part000 gsc request =
              (Inr \<lparr>ar_data = Null, ar_error = Val (ErrString ''Invalid action type'')\<rparr>, [])"
    if "gsc request = Inr sb" for sb
    using that assms(1) n
    by (simp add: crud_action_def crud_action_try_def crud_action_part000_def
          crud_action_part000_try_def Let_def)
  have err: "crud_action gsc request =
              (Inr \<lparr>ar_data = Null, ar_error = Val ''An error occurred''\<rparr>, [])
          \<and> crud_action_part000 gsc request =
              (Inr \<lparr>ar_data = Null, ar_error = Val (ErrString ''An error occurred'')\<rparr>, [])"
    if "gsc request = Inl e" for e
    using that
    by (simp add: crud_action_def crud_action_try_def crud_action_part000_def
          crud_action_part000_try_def)
  have none: "snd (crud_action gsc request) = [] \<and> snd (crud_action_part000 gsc request) = []"
  proof (cases "gsc request")
    case (Inl e)
    then show ?thesis using err by simp
  next
    case (Inr sb)
    then show ?thesis using ok by simp
  qed
  show ?thesis using ok err none by blast
qed

text \<open>
  At the action type \<open>purge\<close> with a client, and at a form without the field, with a
  throwing \<open>getServerClient\<close> and with a client.
\<close>

theorem crud_action_invalid_action_type_witness:
  "req_formData (form_request [(''actionType'', FString ''purge'')]) = Inr [(''actionType'', FString ''purge'')]
   \<and> FormData_get [(''actionType'', FString ''purge'')] ''actionType'' = Some (FString ''purge'')
   \<and> sample_gsc no_user (form_request [(''actionType'', FString ''purge'')]) = Inr (sample_handle no_user)
   \<and> crud_action (sample_gsc no_user) (form_request [(''actionType'', FString ''purge'')])
       = (Inr \<lparr>ar_data = Null, ar_error = Val ''Invalid action type''\<rparr>, [])
   \<and> crud_action_part000 (sample_gsc no_user) (form_request [(''actionType'', FString ''purge'')])
       = (Inr \<lparr>ar_data = Null, ar_error = Val (ErrString ''Invalid action type'')\<rparr>, [])
   \<and> req_formData (form_request [(''name'', FString ''pen'')]) = Inr [(''name'', FString ''pen'')]
   \<and> FormData_get [(''name'', FString ''pen'')] ''actionType'' = None
   \<and> absent_config_gsc (form_request [(''name'', FString ''pen'')]) = Inl (Error ''URL and Key are required'')
   \<and> crud_action absent_config_gsc (form_request [(''name'', FString ''pen'')])
       = (Inr \<lparr>ar_data = Null, ar_error = Val ''An error occurred''\<rparr>, [])
   \<and> crud_action_part000 absent_config_gsc (form_request [(''name'', FString ''pen'')])
       = (Inr \<lparr>ar_data = Null, ar_error = Val (ErrString ''An error occurred'')\<rparr>, [])
   \<and> snd (crud_action (sample_gsc no_user) (form_request [(''name'', FString ''pen'')])) = []"
proof -
  let ?p = "form_request [(''actionType'', FString ''purge'')]"
  let ?q = "form_request [(''name'', FString ''pen'')]"
  have g1: "sample_gsc no_user ?p = Inr (sample_handle no_user)"
    by (simp add: sample_gsc_def)
  have g2: "absent_config_gsc ?q = Inl (Error ''URL and Key are required'')"
    by (simp add: absent_config_gsc_def getServerClient_def new_Headers_def createServerClient_def
          sample_externals_def empty_env_def)
  have f1: "req_formData ?p = Inr [(''actionType'', FString ''purge'')]"
    and f2: "req_formData ?q = Inr [(''name'', FString ''pen'')]"
    by (simp_all add: form_request_def)
  have v1: "FormData_get [(''actionType'', FString ''purge'')] ''actionType'' = Some (FString ''purge'')"
    and v2: "FormData_get [(''name'', FString ''pen'')] ''actionType'' = None"
    by (simp_all add: FormData_get_def)
  have n1: "FormData_get [(''actionType'', FString ''purge'')] ''actionType'' \<notin>
             {Some (FString ''addItem''), Some (FString ''editItem''), Some (FString ''deleteItem'')}"
    using v1 by simp
  have n2: "FormData_get [(''name'', FString ''pen'')] ''actionType'' \<notin>
             {Some (FString ''addItem''), Some (FString ''editItem''), Some (FString ''deleteItem'')}"
    using v2 by simp
  note t1 = crud_action_invalid_action_type
      [of ?p "[(''actionType'', FString ''purge'')]" "sample_gsc no_user", OF f1 n1]
  note t2 = crud_action_invalid_action_type
      [of ?q "[(''name'', FString ''pen'')]" absent_config_gsc, OF f2 n2]
  note t3 = crud_action_invalid_action_type
      [of ?q "[(''name'', FString ''pen'')]" "sample_gsc no_user", OF f2 n2]
  have a: "crud_action (sample_gsc no_user) ?p
       = (Inr \<lparr>ar_data = Null, ar_error = Val ''Invalid action type''\<rparr>, [])"
    "crud_action_part000 (sample_gsc no_user) ?p
       = (Inr \<lparr>ar_data = Null, ar_error = Val (ErrString ''Invalid action type'')\<rparr>, [])"
    using t1 g1 by blast+
  have b: "crud_action absent_config_gsc ?q
       = (Inr \<lparr>ar_data = Null, ar_error = Val ''An error occurred''\<rparr>, [])"
    "crud_action_part000 absent_config_gsc ?q
       = (Inr \<lparr>ar_data = Null, ar_error = Val (ErrString ''An error occurred'')\<rparr>, [])"
    using t2 g2 by blast+
  have c: "snd (crud_action (sample_gsc no_user) ?q) = []"
    using t3 by blast
  show ?thesis using g1 g2 f1 f2 v1 v2 a b c by blast
qed

subsection \<open>C10: the home loader never returns a null user\<close>

text \<open>
  Claim C10: the home loader never returns \<open>{ user: null }\<close>. When \<open>auth.getUser()\<close>
  answers with an error or without a user, the loader throws the redirect to \<open>/login\<close>.
  It returns \<open>{ user }\<close> exactly when \<open>getUser\<close> answered with a user and no error, and
  then with that user.
\<close>

theorem home_loader_user_never_null:
  "(\<forall>d. home_loader gsc request = Inr d \<longrightarrow> user d \<noteq> None)
 \<and> (\<forall>sb resp. gsc request = Inr sb \<and> sh_auth_getUser sb = Some (Inr resp) \<and>
        (ur_error resp \<noteq> None \<or> ur_user resp = None) \<longrightarrow>
        home_loader gsc request = Inl (Redirect ''/login''))
 \<and> (\<forall>d. home_loader gsc request = Inr d \<longleftrightarrow>
        (\<exists>sb u. gsc request = Inr sb \<and>
           sh_auth_getUser sb = Some (Inr \<lparr>ur_user = Some u, ur_error = None\<rparr>) \<and>
           d = \<lparr>user = Some u\<rparr>))"
proof (intro conjI allI impI)
  fix d assume "home_loader gsc request = Inr d"
  then show "user d \<noteq> None"
    by (auto simp: home_loader_def split: sum.splits option.splits if_splits)
next
  fix sb resp
  assume "gsc request = Inr sb \<and> sh_auth_getUser sb = Some (Inr resp) \<and>
        (ur_error resp \<noteq> None \<or> ur_user resp = None)"
  then show "home_loader gsc request = Inl (Redirect ''/login'')"
    by (auto simp: home_loader_def)
next
  fix d
  show "home_loader gsc request = Inr d \<longleftrightarrow>
        (\<exists>sb u. gsc request = Inr sb \<and>
           sh_auth_getUser sb = Some (Inr \<lparr>ur_user = Some u, ur_error = None\<rparr>) \<and>
           d = \<lparr>user = Some u\<rparr>)"
  proof
    assume "home_loader gsc request = Inr d"
    then obtain sb resp u where "gsc request = Inr sb" "sh_auth_getUser sb = Some (Inr resp)"
      "ur_error resp = None" "ur_user resp = Some u" "d = \<lparr>user = Some u\<rparr>"
      by (auto simp: home_loader_def split: sum.splits option.splits if_splits)
    moreover from this have "resp = \<lparr>ur_user = Some u, ur_error = None\<rparr>" by simp
    ultimately show "\<exists>sb u. gsc request = Inr sb \<and>
           sh_auth_getUser sb = Some (Inr \<lparr>ur_user = Some u, ur_error = None\<rparr>) \<and>
           d = \<lparr>user = Some u\<rparr>" by blast
  next
    assume "\<exists>sb u. gsc request = Inr sb \<and>
           sh_auth_getUser sb = Some (Inr \<lparr>ur_user = Some u, ur_error = None\<rparr>) \<and>
           d = \<lparr>user = Some u\<rparr>"
    then show "home_loader gsc request = Inr d"
      by (auto simp: home_loader_def)
  qed
qed

text \<open>At a session of the user \<open>ann\<close>, at no session, and at the provider of app/server.ts.\<close>

theorem home_loader_user_never_null_witness:
  "sample_gsc user_ann (cookie_request (Some ''sid=abc'')) = Inr (sample_handle user_ann)
   \<and> sh_auth_getUser (sample_handle user_ann) = Some (Inr \<lparr>ur_user = Some ''ann'', ur_error = None\<rparr>)
   \<and> home_loader (sample_gsc user_ann) (cookie_request (Some ''sid=abc'')) = Inr \<lparr>user = Some ''ann''\<rparr>
   \<and> user \<lparr>user = Some ''ann''\<rparr> = Some ''ann''
   \<and> sample_gsc no_user (cookie_request None) = Inr (sample_handle no_user)
   \<and> sh_auth_getUser (sample_handle no_user)
       = Some (Inr \<lparr>ur_user = None, ur_error = Some \<lparr>message = ''Auth session missing!''\<rparr>\<rparr>)
   \<and> home_loader (sample_gsc no_user) (cookie_request None) = Inl (Redirect ''/login'')
   \<and> home_loader server_ts_gsc (cookie_request None) = Inl (Exception TypeError)"
proof -
  let ?r = "cookie_request (Some ''sid=abc'')"
  note t1 = home_loader_user_never_null [of "sample_gsc user_ann" ?r]
  note t2 = home_loader_user_never_null [of "sample_gsc no_user" "cookie_request None"]
  have g1: "sample_gsc user_ann ?r = Inr (sample_handle user_ann)"
    and g2: "sample_gsc no_user (cookie_request None) = Inr (sample_handle no_user)"
    by (simp_all add: sample_gsc_def)
  have u1: "sh_auth_getUser (sample_handle user_ann) = Some (Inr \<lparr>ur_user = Some ''ann'', ur_error = None\<rparr>)"
    and u2: "sh_auth_getUser (sample_handle no_user)
       = Some (Inr \<lparr>ur_user = None, ur_error = Some \<lparr>message = ''Auth session missing!''\<rparr>\<rparr>)"
    by (simp_all add: sample_handle_def user_ann_def no_user_def)
  have a: "home_loader (sample_gsc user_ann) ?r = Inr \<lparr>user = Some ''ann''\<rparr>"
    using t1 g1 u1 by blast
  have b: "home_loader (sample_gsc no_user) (cookie_request None) = Inl (Redirect ''/login'')"
  proof -
    have "ur_error \<lparr>ur_user = None, ur_error = Some \<lparr>message = ''Auth session missing!''\<rparr>\<rparr> \<noteq> None
        \<or> ur_user \<lparr>ur_user = (None :: string option), ur_error = Some \<lparr>message = ''Auth session missing!''\<rparr>\<rparr> = None"
      by simp
    with t2 g2 u2 show ?thesis by blast
  qed
  have c: "home_loader server_ts_gsc (cookie_request None) = Inl (Exception TypeError)"
    by (simp add: home_loader_def server_ts_gsc_def bridge_as_handle_def getServerClient_def
        new_Headers_def createServerClient_def sample_externals_def
        sample_env_def empty_store_def sample_bridge_def sample_created_def)
  show ?thesis using g1 g2 u1 u2 a b c by simp
qed

end
